theory Spec2Isabelle
  imports Main "HOL-Library.List_Lexorder"
begin

section \<open>Parsed rule trees\<close>

text \<open>
  The script \<^verbatim>\<open>audit_rule_translations.py\<close> works on the trees that the YAML
  loader returns: scalars, sequences and mappings. A mapping is kept as the list of its
  entries in insertion order (the order in which Python iterates over it); the keys of a
  Python mapping are pairwise different, which \<open>wf_yval\<close> records. Keys are strings.
  Floating point scalars are left out of the model. A Python string is the list of its
  code points (\<open>len\<close> counts them and \<open>ord\<close> reads one); \<open>str\<close> turns a literal of
  the theory into such a list.
\<close>

type_synonym pystr = "nat list"

definition str :: "string \<Rightarrow> pystr" where
  "str s = map of_char s"

datatype scalar = SStr pystr | SInt int | SBool bool | SNone

datatype yval = YScalar scalar | YList "yval list" | YDict "(pystr \<times> yval) list"

type_synonym ydict = "(pystr \<times> yval) list"

datatype py_error = AttributeError | KeyError | TypeError | IndexError

fun wf_yval :: "yval \<Rightarrow> bool"
  and wf_list :: "yval list \<Rightarrow> bool"
  and wf_entries :: "ydict \<Rightarrow> bool" where
  "wf_yval (YScalar s) = True"
| "wf_yval (YList xs) = wf_list xs"
| "wf_yval (YDict d) = (distinct (map fst d) \<and> wf_entries d)"
| "wf_list [] = True"
| "wf_list (x # xs) = (wf_yval x \<and> wf_list xs)"
| "wf_entries [] = True"
| "wf_entries ((k, v) # d) = (wf_yval v \<and> wf_entries d)"

definition is_dict :: "yval \<Rightarrow> bool" where
  "is_dict v = (case v of YDict _ \<Rightarrow> True | _ \<Rightarrow> False)"

subsection \<open>Python's equality on trees\<close>

text \<open>
  \<^verbatim>\<open>a != b\<close> on loaded values: a boolean equals the integer 0 or 1, sequences are
  equal elementwise, mappings are equal when they have the same number of entries and
  every key of the first has an equal value in the second.
\<close>

fun scalar_eq :: "scalar \<Rightarrow> scalar \<Rightarrow> bool" where
  "scalar_eq (SStr a) (SStr b) = (a = b)"
| "scalar_eq (SInt a) (SInt b) = (a = b)"
| "scalar_eq (SBool a) (SBool b) = (a = b)"
| "scalar_eq (SBool a) (SInt b) = ((if a then 1 else 0) = b)"
| "scalar_eq (SInt a) (SBool b) = (a = (if b then 1 else 0))"
| "scalar_eq SNone SNone = True"
| "scalar_eq _ _ = False"

fun py_eq :: "yval \<Rightarrow> yval \<Rightarrow> bool"
  and py_eq_list :: "yval list \<Rightarrow> yval list \<Rightarrow> bool"
  and py_eq_items :: "ydict \<Rightarrow> ydict \<Rightarrow> bool" where
  "py_eq (YScalar a) (YScalar b) = scalar_eq a b"
| "py_eq (YList xs) (YList ys) = py_eq_list xs ys"
| "py_eq (YDict d) (YDict e) = (length d = length e \<and> py_eq_items d e)"
| "py_eq _ _ = False"
| "py_eq_list [] [] = True"
| "py_eq_list (x # xs) (y # ys) = (py_eq x y \<and> py_eq_list xs ys)"
| "py_eq_list _ _ = False"
| "py_eq_items [] e = True"
| "py_eq_items ((k, v) # d) e =
     (case map_of e k of None \<Rightarrow> False | Some w \<Rightarrow> py_eq v w \<and> py_eq_items d e)"

section \<open>Counting the keys that still need translating\<close>

text \<open>
  \<^verbatim>\<open>count_untranslated_keys_in_dict\<close>: the loop over \<^verbatim>\<open>dictionary.items()\<close> is the
  recursion over the entries, the inner loop over a list value is \<open>count_in_items\<close>.
\<close>

definition untranslated_keys :: "pystr list" where
  "untranslated_keys = [str ''t'', str ''ot'', str ''oc'']"

fun count_untranslated_keys_in_dict :: "ydict \<Rightarrow> nat"
  and count_in_items :: "yval list \<Rightarrow> nat" where
  "count_untranslated_keys_in_dict [] = 0"
| "count_untranslated_keys_in_dict ((k, v) # rest) =
     (if k \<in> set untranslated_keys then 1 else 0)
     + (case v of YDict d \<Rightarrow> count_untranslated_keys_in_dict d | _ \<Rightarrow> 0)
     + (case v of YList xs \<Rightarrow> count_in_items xs | _ \<Rightarrow> 0)
     + count_untranslated_keys_in_dict rest"
| "count_in_items [] = 0"
| "count_in_items (x # xs) =
     (case x of YDict d \<Rightarrow> count_untranslated_keys_in_dict d | _ \<Rightarrow> 0) + count_in_items xs"

text \<open>
  The keys the claim speaks of, listed with repetition: the keys of the mapping, of its
  mapping-valued fields (recursively) and of the mapping elements of its list-valued
  fields.
\<close>

fun keys_reached :: "ydict \<Rightarrow> pystr list"
  and keys_reached_items :: "yval list \<Rightarrow> pystr list" where
  "keys_reached [] = []"
| "keys_reached ((k, v) # rest) =
     k # (case v of YDict d \<Rightarrow> keys_reached d | YList xs \<Rightarrow> keys_reached_items xs | _ \<Rightarrow> [])
     @ keys_reached rest"
| "keys_reached_items [] = []"
| "keys_reached_items (x # xs) =
     (case x of YDict d \<Rightarrow> keys_reached d | _ \<Rightarrow> []) @ keys_reached_items xs"

section \<open>The structural comparison\<close>

definition ignored_keys :: "pystr set" where
  "ignored_keys = {str ''t'', str ''T'', str ''oc'', str ''OC'', str ''CT'', str ''ct''}"

text \<open>
  The warning messages, one constructor for each format string of the source, carrying
  the values the string interpolates. The path is built as in the source: \<open>key_path\<close>
  appends \<^verbatim>\<open>['k']\<close> (the code points 91 and 39, the key, 39 and 93), \<open>index_path\<close>
  appends \<^verbatim>\<open>[i]\<close> with the index in decimal digits:
  \<^item> \<open>DictKeysDiffer path\<close>: \<^verbatim>\<open>Dictionaries don't have the same keys at path: {path}\<close>
  \<^item> \<open>KeysOnlyInFirst S\<close>: \<^verbatim>\<open>Keys in first dictionary that are not in second dictionary: {S}\<close>
  \<^item> \<open>KeysOnlyInSecond S\<close>: \<^verbatim>\<open>Keys in second dictionary that are not in first dictionary: {S}\<close>
  \<^item> \<open>ListLengthsDiffer path\<close>: \<^verbatim>\<open>Lists don't have the same length at path: {path}\<close>
  \<^item> \<open>ListItemsDontMatch path\<close>: \<^verbatim>\<open>List item values don't match at path: {path}[{index}]:\<close>
    (the argument is the path with the index already appended)
  \<^item> \<open>ListsDontMatch path\<close>: \<^verbatim>\<open>lists don't match at path: {path}['{k}']\<close>
  \<^item> \<open>ValuesDontMatch k path\<close>: \<^verbatim>\<open>Values for key: {k} don't match at path: {path}['{k}']:\<close>
  \<^item> \<open>FirstValue v\<close>, \<open>SecondValue v\<close>: the lines \<^verbatim>\<open>  1: {v}\<close> and \<^verbatim>\<open>  2: {v}\<close>
\<close>

datatype warning =
    DictKeysDiffer pystr
  | KeysOnlyInFirst "pystr set"
  | KeysOnlyInSecond "pystr set"
  | ListLengthsDiffer pystr
  | ListItemsDontMatch pystr
  | ListsDontMatch pystr
  | ValuesDontMatch pystr pystr
  | FirstValue yval
  | SecondValue yval

fun string_of_nat :: "nat \<Rightarrow> pystr" where
  "string_of_nat n =
     (if n < 10 then [48 + n]
      else string_of_nat (n div 10) @ [48 + n mod 10])"

declare string_of_nat.simps [simp del]

definition key_path :: "pystr \<Rightarrow> pystr \<Rightarrow> pystr" where
  "key_path path k = path @ [91, 39] @ k @ [39, 93]"

definition index_path :: "pystr \<Rightarrow> nat \<Rightarrow> pystr" where
  "index_path path i = path @ [91] @ string_of_nat i @ [93]"

type_synonym cmp_result = "py_error + (warning list \<times> bool)"

definition keys_differ_warnings :: "pystr set \<Rightarrow> pystr set \<Rightarrow> pystr \<Rightarrow> warning list" where
  "keys_differ_warnings keys1 keys2 path =
     [DictKeysDiffer path]
     @ (if keys1 - keys2 \<noteq> {} then [KeysOnlyInFirst (keys1 - keys2)] else [])
     @ (if keys2 - keys1 \<noteq> {} then [KeysOnlyInSecond (keys2 - keys1)] else [])"

text \<open>
  \<^verbatim>\<open>dictionaries_are_the_same_besides_translations\<close> and \<^verbatim>\<open>lists_are_the_same\<close>.
  The second argument is any loaded value: the source calls \<^verbatim>\<open>dict2.keys()\<close> on it
  without a test, which raises \<^verbatim>\<open>AttributeError\<close> on a value that is not a mapping.
  \<open>dict_keys_loop\<close> is the loop \<^verbatim>\<open>for k in dict1.keys()\<close> over the entries that are
  left, with the warnings gathered so far; \<open>dict_key_step\<close> is its body after the test
  for an ignored key, given \<^verbatim>\<open>dict1[k]\<close> and \<^verbatim>\<open>dict2[k]\<close>. \<open>list_items_loop\<close> is the
  loop over \<^verbatim>\<open>enumerate(zip(list1, list2))\<close> and \<open>list_item_step\<close> its body.
\<close>

function dictionaries_are_the_same_besides_translations ::
    "ydict \<Rightarrow> yval \<Rightarrow> pystr \<Rightarrow> cmp_result"
  and dict_keys_loop :: "ydict \<Rightarrow> ydict \<Rightarrow> pystr \<Rightarrow> warning list \<Rightarrow> cmp_result"
  and dict_key_step :: "pystr \<Rightarrow> yval \<Rightarrow> yval \<Rightarrow> pystr \<Rightarrow> cmp_result"
  and lists_are_the_same :: "yval list \<Rightarrow> yval list \<Rightarrow> pystr \<Rightarrow> cmp_result"
  and list_items_loop ::
    "yval list \<Rightarrow> yval list \<Rightarrow> nat \<Rightarrow> pystr \<Rightarrow> warning list \<Rightarrow> cmp_result"
  and list_item_step :: "yval \<Rightarrow> yval \<Rightarrow> pystr \<Rightarrow> cmp_result"
where
  "dictionaries_are_the_same_besides_translations dict1 (YDict dict2) path =
     (if set (map fst dict1) - ignored_keys \<noteq> set (map fst dict2) - ignored_keys
      then Inr (keys_differ_warnings (set (map fst dict1) - ignored_keys)
                  (set (map fst dict2) - ignored_keys) path, False)
      else dict_keys_loop dict1 dict2 path [])"
| "dictionaries_are_the_same_besides_translations dict1 (YList l) path = Inl AttributeError"
| "dictionaries_are_the_same_besides_translations dict1 (YScalar s) path = Inl AttributeError"
| "dict_keys_loop [] dict2 path ws = Inr (ws, True)"
| "dict_keys_loop ((k, v1) # rest) dict2 path ws =
     (if k \<in> ignored_keys then dict_keys_loop rest dict2 path ws
      else case map_of dict2 k of
        None \<Rightarrow> Inl KeyError
      | Some v2 \<Rightarrow>
         (case dict_key_step k v1 v2 path of
            Inl e \<Rightarrow> Inl e
          | Inr (warnings, match) \<Rightarrow>
              if \<not> match then Inr (ws @ warnings, False)
              else dict_keys_loop rest dict2 path (ws @ warnings)))"
| "dict_key_step k (YDict d1) v2 path =
     dictionaries_are_the_same_besides_translations d1 v2 (key_path path k)"
| "dict_key_step k (YList l1) (YList l2) path =
     (if length l1 \<noteq> length l2 then Inr ([ListsDontMatch (key_path path k)], False)
      else lists_are_the_same l1 l2 (key_path path k))"
| "dict_key_step k (YList l1) (YDict d2) path =
     Inr ([ListsDontMatch (key_path path k)], False)"
| "dict_key_step k (YList l1) (YScalar s2) path =
     Inr ([ListsDontMatch (key_path path k)], False)"
| "dict_key_step k (YScalar s) v2 path =
     (if \<not> py_eq (YScalar s) v2
      then Inr ([ValuesDontMatch k (key_path path k), FirstValue (YScalar s), SecondValue v2],
                False)
      else Inr ([], True))"
| "lists_are_the_same list1 list2 path =
     (if length list1 \<noteq> length list2 then Inr ([ListLengthsDiffer path], False)
      else list_items_loop list1 list2 0 path [])"
| "list_items_loop [] r2 i path ws = Inr (ws, True)"
| "list_items_loop (item1 # r1) [] i path ws = Inr (ws, True)"
| "list_items_loop (item1 # r1) (item2 # r2) i path ws =
     (case list_item_step item1 item2 (index_path path i) of
        Inl e \<Rightarrow> Inl e
      | Inr (warnings, match) \<Rightarrow>
          if \<not> match then Inr (ws @ warnings, False)
          else list_items_loop r1 r2 (Suc i) path (ws @ warnings))"
| "list_item_step (YDict d1) item2 ipath =
     (if is_dict item2 then dictionaries_are_the_same_besides_translations d1 item2 ipath
      else if \<not> py_eq (YDict d1) item2
      then Inr ([ListItemsDontMatch ipath, FirstValue (YDict d1), SecondValue item2], False)
      else Inr ([], True))"
| "list_item_step (YList l) item2 ipath =
     (if \<not> py_eq (YList l) item2
      then Inr ([ListItemsDontMatch ipath, FirstValue (YList l), SecondValue item2], False)
      else Inr ([], True))"
| "list_item_step (YScalar s) item2 ipath =
     (if \<not> py_eq (YScalar s) item2
      then Inr ([ListItemsDontMatch ipath, FirstValue (YScalar s), SecondValue item2], False)
      else Inr ([], True))"
  by pat_completeness auto
termination
  by (relation "measure (\<lambda>x. case x of
        Inl (Inl (d, _)) \<Rightarrow> 2 * size_list (size_prod (\<lambda>_. 0) size) d + 1
      | Inl (Inr (Inl (d, _))) \<Rightarrow> 2 * size_list (size_prod (\<lambda>_. 0) size) d
      | Inl (Inr (Inr (_, v, _))) \<Rightarrow> 2 * size v
      | Inr (Inl (l, _)) \<Rightarrow> 2 * size_list size l + 1
      | Inr (Inr (Inl (l, _))) \<Rightarrow> 2 * size_list size l
      | Inr (Inr (Inr (v, _))) \<Rightarrow> 2 * size v)") auto

section \<open>Trees that differ only in ignored fields\<close>

text \<open>
  Two ways of removing the ignored keys from a tree. \<open>erase_ignored\<close> follows the words
  ``differ only in ignored fields'': it removes the ignored keys from every mapping of the
  tree, wherever it stands. \<open>erase_visited\<close> removes them from the mappings the comparison
  can reach: the record, its mapping-valued fields (recursively) and the mapping elements
  of its list-valued fields; an element of a list that is not a mapping is kept as it is.
\<close>

fun erase_ignored :: "yval \<Rightarrow> yval"
  and erase_ignored_list :: "yval list \<Rightarrow> yval list"
  and erase_ignored_entries :: "ydict \<Rightarrow> ydict" where
  "erase_ignored (YScalar s) = YScalar s"
| "erase_ignored (YList xs) = YList (erase_ignored_list xs)"
| "erase_ignored (YDict d) = YDict (erase_ignored_entries d)"
| "erase_ignored_list [] = []"
| "erase_ignored_list (x # xs) = erase_ignored x # erase_ignored_list xs"
| "erase_ignored_entries [] = []"
| "erase_ignored_entries ((k, v) # d) =
     (if k \<in> ignored_keys then erase_ignored_entries d
      else (k, erase_ignored v) # erase_ignored_entries d)"

fun erase_visited :: "ydict \<Rightarrow> ydict"
  and erase_value :: "yval \<Rightarrow> yval"
  and erase_items :: "yval list \<Rightarrow> yval list"
  and erase_item :: "yval \<Rightarrow> yval" where
  "erase_visited [] = []"
| "erase_visited ((k, v) # d) =
     (if k \<in> ignored_keys then erase_visited d else (k, erase_value v) # erase_visited d)"
| "erase_value (YScalar s) = YScalar s"
| "erase_value (YList xs) = YList (erase_items xs)"
| "erase_value (YDict d) = YDict (erase_visited d)"
| "erase_items [] = []"
| "erase_items (x # xs) = erase_item x # erase_items xs"
| "erase_item (YDict d) = YDict (erase_visited d)"
| "erase_item (YList xs) = YList xs"
| "erase_item (YScalar s) = YScalar s"

section \<open>Comparison paths and what a warning reports\<close>









section \<open>Lines of a rule file\<close>

text \<open>
  A file is the list of its lines as Python's text mode yields them, each with its line
  end. \<open>is_space\<close> is the whitespace of \<^verbatim>\<open>str.strip\<close> and of \<^verbatim>\<open>\s\<close> in a pattern over
  \<^verbatim>\<open>str\<close>. The regular expressions of the source are anchored at the start of the line
  and each of their pieces is followed by a character outside its own class, so they are
  matched from left to right by dropping the characters of each class.
\<close>

definition is_space :: "nat \<Rightarrow> bool" where
  "is_space c \<longleftrightarrow>
     (9 \<le> c \<and> c \<le> 13) \<or> (28 \<le> c \<and> c \<le> 32) \<or> c = 133 \<or> c = 160 \<or> c = 5760
     \<or> (8192 \<le> c \<and> c \<le> 8202) \<or> c = 8232 \<or> c = 8233 \<or> c = 8239 \<or> c = 8287
     \<or> c = 12288"

definition lstrip :: "pystr \<Rightarrow> pystr" where
  "lstrip s = dropWhile is_space s"

definition rstrip :: "pystr \<Rightarrow> pystr" where
  "rstrip s = rev (dropWhile is_space (rev s))"

definition strip :: "pystr \<Rightarrow> pystr" where
  "strip s = lstrip (rstrip s)"

definition startswith :: "pystr \<Rightarrow> pystr \<Rightarrow> bool" where
  "startswith s p = (take (length p) s = p)"

definition line_is_blank :: "pystr \<Rightarrow> bool" where
  "line_is_blank line =
     (\<not> (line \<noteq> [] \<and> strip (map (\<lambda>c. if c = 160 then 32 else c) line) \<noteq> []))"

definition line_is_start_of_document :: "pystr \<Rightarrow> bool" where
  "line_is_start_of_document line =
     startswith (rev (dropWhile (\<lambda>c. c = 13 \<or> c = 10) (rev line))) (str ''---'')"

definition line_is_a_translation_audit_comment :: "pystr \<Rightarrow> bool" where
  "line_is_a_translation_audit_comment line =
     (case lstrip line of
        [] \<Rightarrow> False
      | c # r \<Rightarrow> c = 35 \<and> startswith (lstrip r) (str ''[AUDIT]''))"

definition line_is_a_normal_comment :: "pystr \<Rightarrow> bool" where
  "line_is_a_normal_comment line =
     (startswith (lstrip line) (str ''#'') \<and> \<not> line_is_a_translation_audit_comment line)"

text \<open>
  \<^verbatim>\<open>get_key_from_line\<close>. The first pattern is
  \<^verbatim>\<open>^\s*-\s*"([^"]*)"\s*:\<close>; the second is \<^verbatim>\<open>^\s*-\s+'(.+?)'\s*:\<close>, whose group is
  the shortest text of at least one character, without a line feed, that is followed by
  a quote, whitespace and a colon: \<open>lazy_group\<close> tries each end in turn.
\<close>

fun lazy_group :: "pystr \<Rightarrow> pystr \<Rightarrow> pystr option" where
  "lazy_group acc [] = None"
| "lazy_group acc (c # cs) =
     (if acc \<noteq> [] \<and> c = 39 \<and> startswith (lstrip cs) (str '':'') then Some acc
      else if c = 10 then None
      else lazy_group (acc @ [c]) cs)"

definition double_quoted_key :: "pystr \<Rightarrow> pystr option" where
  "double_quoted_key line =
     (case lstrip line of
        [] \<Rightarrow> None
      | c # r \<Rightarrow>
          if c \<noteq> 45 then None
          else (case lstrip r of
                  [] \<Rightarrow> None
                | q # r' \<Rightarrow>
                    if q \<noteq> 34 then None
                    else (case dropWhile (\<lambda>x. x \<noteq> 34) r' of
                            [] \<Rightarrow> None
                          | q' # r'' \<Rightarrow>
                              if startswith (lstrip r'') (str '':'')
                              then Some (takeWhile (\<lambda>x. x \<noteq> 34) r') else None)))"

definition single_quoted_key :: "pystr \<Rightarrow> pystr option" where
  "single_quoted_key line =
     (case lstrip line of
        [] \<Rightarrow> None
      | c # r \<Rightarrow>
          if c \<noteq> 45 \<or> r = [] \<or> \<not> is_space (hd r) then None
          else (case lstrip r of
                  [] \<Rightarrow> None
                | q # r' \<Rightarrow> if q \<noteq> 39 then None else lazy_group [] r'))"

definition get_key_from_line :: "pystr \<Rightarrow> pystr option" where
  "get_key_from_line line =
     (case double_quoted_key line of
        Some k \<Rightarrow> Some k
      | None \<Rightarrow> single_quoted_key line)"

text \<open>
  The patterns \<^verbatim>\<open>^\s*-*\s*name:\s*\S+\<close>, \<^verbatim>\<open>^\s*tag:\s*\S+\<close> and \<^verbatim>\<open>^\s*-\s*name:\<close>.
\<close>

definition line_has_name_key :: "pystr \<Rightarrow> bool" where
  "line_has_name_key line =
     (let r = lstrip (dropWhile (\<lambda>c. c = 45) (lstrip line))
      in startswith r (str ''name:'') \<and> lstrip (drop 5 r) \<noteq> [])"

definition line_has_tag_key :: "pystr \<Rightarrow> bool" where
  "line_has_tag_key line =
     (let r = lstrip line in startswith r (str ''tag:'') \<and> lstrip (drop 4 r) \<noteq> [])"

definition line_starts_rule_name :: "pystr \<Rightarrow> bool" where
  "line_starts_rule_name line =
     (case lstrip line of
        [] \<Rightarrow> False
      | c # r \<Rightarrow> c = 45 \<and> startswith (lstrip r) (str ''name:''))"

text \<open>
  \<^verbatim>\<open>stripped = line.lstrip()\<close>, \<^verbatim>\<open>stripped.startswith("- ")\<close> and
  \<^verbatim>\<open>len(line) - len(stripped)\<close>.
\<close>

definition is_item_line :: "pystr \<Rightarrow> bool" where
  "is_item_line line = startswith (lstrip line) (str ''- '')"

definition indent_of :: "pystr \<Rightarrow> nat" where
  "indent_of line = length line - length (lstrip line)"

section \<open>Record keys\<close>

text \<open>
  The key of a rule with name and tag, as \<^verbatim>\<open>format_rule_key_from_dict\<close> and the three
  copies of its body in \<^verbatim>\<open>get_rule_key_from_buffered_lines\<close> and \<^verbatim>\<open>main\<close> build it:
  the name, a colon and the tag, a list of tags being sorted, joined with a comma and a
  space and put in brackets. Python raises \<^verbatim>\<open>TypeError\<close> when it joins or concatenates a
  value that is not a string.
\<close>

fun join :: "pystr \<Rightarrow> pystr list \<Rightarrow> pystr" where
  "join sep [] = []"
| "join sep [x] = x"
| "join sep (x # y # ys) = x @ sep @ join sep (y # ys)"

fun as_strings :: "yval list \<Rightarrow> pystr list option" where
  "as_strings [] = Some []"
| "as_strings (YScalar (SStr s) # xs) = map_option (\<lambda>ss. s # ss) (as_strings xs)"
| "as_strings (_ # xs) = None"

definition format_rule_key_from_dict :: "ydict \<Rightarrow> py_error + pystr" where
  "format_rule_key_from_dict rule =
     (case map_of rule (str ''tag'') of
        None \<Rightarrow> Inl KeyError
      | Some (YList tags) \<Rightarrow>
          (case as_strings tags of
             None \<Rightarrow> Inl TypeError
           | Some ss \<Rightarrow>
               (case map_of rule (str ''name'') of
                  None \<Rightarrow> Inl KeyError
                | Some (YScalar (SStr n)) \<Rightarrow>
                    Inr (n @ str '':'' @ (str ''['' @ join (str '', '') (sort ss) @ str '']''))
                | Some _ \<Rightarrow> Inl TypeError))
      | Some (YScalar (SStr t)) \<Rightarrow>
          (case map_of rule (str ''name'') of
             None \<Rightarrow> Inl KeyError
           | Some (YScalar (SStr n)) \<Rightarrow> Inr (n @ str '':'' @ t)
           | Some _ \<Rightarrow> Inl TypeError)
      | Some _ \<Rightarrow>
          (case map_of rule (str ''name'') of
             None \<Rightarrow> Inl KeyError
           | Some _ \<Rightarrow> Inl TypeError))"

text \<open>
  \<^verbatim>\<open>"name" in rule and "tag" in rule\<close> on a loaded value: key membership in a mapping,
  element membership in a sequence, substring in a string, \<^verbatim>\<open>TypeError\<close> on the other
  scalars. \<open>rule_key_of\<close> is the code that follows the test: the subscripts
  \<^verbatim>\<open>rule["tag"]\<close> raise \<^verbatim>\<open>TypeError\<close> on a sequence and on a string.
\<close>

fun contains :: "pystr \<Rightarrow> pystr \<Rightarrow> bool" where
  "contains [] p = (p = [])"
| "contains (c # s) p = (startswith (c # s) p \<or> contains s p)"

definition has_name_and_tag :: "yval \<Rightarrow> py_error + bool" where
  "has_name_and_tag rule =
     (case rule of
        YDict d \<Rightarrow> Inr (str ''name'' \<in> set (map fst d) \<and> str ''tag'' \<in> set (map fst d))
      | YList xs \<Rightarrow> Inr (list_ex (py_eq (YScalar (SStr (str ''name'')))) xs
                        \<and> list_ex (py_eq (YScalar (SStr (str ''tag'')))) xs)
      | YScalar (SStr s) \<Rightarrow> Inr (contains s (str ''name'') \<and> contains s (str ''tag''))
      | YScalar _ \<Rightarrow> Inl TypeError)"

definition rule_key_of :: "yval \<Rightarrow> py_error + pystr" where
  "rule_key_of rule = (case rule of YDict d \<Rightarrow> format_rule_key_from_dict d | _ \<Rightarrow> Inl TypeError)"

text \<open>
  \<^verbatim>\<open>get_rule_key_from_buffered_lines\<close>. The YAML loader is not part of the script: it
  is the parameter \<open>load\<close>, from the text to a loaded value or an error. \<open>py_len\<close> and
  \<open>py_first\<close> are \<^verbatim>\<open>len(from_buffer)\<close> and \<^verbatim>\<open>from_buffer[0]\<close>.
\<close>

type_synonym loader = "pystr \<Rightarrow> py_error + yval"

definition py_len :: "yval \<Rightarrow> py_error + nat" where
  "py_len v =
     (case v of
        YList xs \<Rightarrow> Inr (length xs)
      | YDict d \<Rightarrow> Inr (length d)
      | YScalar (SStr s) \<Rightarrow> Inr (length s)
      | YScalar _ \<Rightarrow> Inl TypeError)"

definition py_first :: "yval \<Rightarrow> py_error + yval" where
  "py_first v =
     (case v of
        YList xs \<Rightarrow> (case xs of [] \<Rightarrow> Inl IndexError | x # _ \<Rightarrow> Inr x)
      | YDict d \<Rightarrow> Inl KeyError
      | YScalar (SStr s) \<Rightarrow> (case s of [] \<Rightarrow> Inl IndexError | c # _ \<Rightarrow> Inr (YScalar (SStr [c])))
      | YScalar _ \<Rightarrow> Inl TypeError)"

definition get_rule_key_from_buffered_lines :: "loader \<Rightarrow> pystr list \<Rightarrow> py_error + pystr option" where
  "get_rule_key_from_buffered_lines load lines =
     (case load (concat lines) of
        Inl e \<Rightarrow> Inl e
      | Inr from_buffer \<Rightarrow>
          (case py_len from_buffer of
             Inl e \<Rightarrow> Inl e
           | Inr n \<Rightarrow>
               if n = 1 then
                 (case py_first from_buffer of
                    Inl e \<Rightarrow> Inl e
                  | Inr rule \<Rightarrow>
                      (case has_name_and_tag rule of
                         Inl e \<Rightarrow> Inl e
                       | Inr both \<Rightarrow>
                           if both then
                             (case rule_key_of rule of
                                Inl e \<Rightarrow> Inl e
                              | Inr k \<Rightarrow> Inr (Some k))
                           else Inr None))
               else Inr None))"

section \<open>Extracting the lines of a missing rule\<close>

text \<open>
  The variables that \<^verbatim>\<open>grab_missing_rule_lines\<close> and the rewriting loop of \<^verbatim>\<open>main\<close>
  share. An index into the buffer (a count of lines) is \<open>None\<close> where Python has
  \<^verbatim>\<open>None\<close>.
\<close>

record scan_state =
  indentation :: "nat option"
  past_start_of_document :: bool
  buffered_lines :: "pystr list"
  last_buffered_non_blank_non_comment_line :: "nat option"
  current_rule_key :: "pystr option"
  found_name_key :: bool

definition initial_scan_state :: scan_state where
  "initial_scan_state =
     \<lparr>indentation = None, past_start_of_document = False, buffered_lines = [],
      last_buffered_non_blank_non_comment_line = None, current_rule_key = None,
      found_name_key = False\<rparr>"

text \<open>
  \<^verbatim>\<open>del buffered_lines[:n]\<close> and \<^verbatim>\<open>del buffered_lines[n:]\<close>: with \<^verbatim>\<open>None\<close> for the
  bound, both slices are the whole list.
\<close>

definition del_up_to :: "nat option \<Rightarrow> pystr list \<Rightarrow> pystr list" where
  "del_up_to n xs = (case n of None \<Rightarrow> [] | Some k \<Rightarrow> drop k xs)"

definition del_from :: "nat option \<Rightarrow> pystr list \<Rightarrow> pystr list" where
  "del_from n xs = (case n of None \<Rightarrow> [] | Some k \<Rightarrow> take k xs)"

text \<open>
  The end of the loop body of \<^verbatim>\<open>grab_missing_rule_lines\<close> (source lines 337 to 347):
  the line is buffered, the index of the last line that is neither blank nor a comment
  is moved, and the key of the rule is looked for while it is not known.
\<close>

definition buffer_line :: "pystr \<Rightarrow> 'a scan_state_scheme \<Rightarrow> 'a scan_state_scheme" where
  "buffer_line line st =
     (let st1 = st\<lparr>buffered_lines := buffered_lines st @ [line]\<rparr>
      in if \<not> line_is_blank line \<and> \<not> line_is_a_normal_comment line
         then st1\<lparr>last_buffered_non_blank_non_comment_line := Some (length (buffered_lines st1))\<rparr>
         else st1)"

definition detect_rule_key :: "loader \<Rightarrow> bool \<Rightarrow> pystr \<Rightarrow> scan_state \<Rightarrow> py_error + scan_state" where
  "detect_rule_key load is_a_unicode_file line st =
     (if indentation st \<noteq> None \<and> current_rule_key st = None then
        (let st1 = (if is_a_unicode_file then st\<lparr>current_rule_key := get_key_from_line line\<rparr>
                    else st);
             st2 = (if line_has_name_key line then st1\<lparr>found_name_key := True\<rparr> else st1)
         in if found_name_key st2 \<and> line_has_tag_key line then
              (case get_rule_key_from_buffered_lines load (buffered_lines st2) of
                 Inl e \<Rightarrow> Inl e
               | Inr k \<Rightarrow> Inr (st2\<lparr>current_rule_key := k\<rparr>))
            else Inr st2)
      else Inr st)"

text \<open>
  The head of the loop body: the document has started at the first line that is neither
  an ordinary comment nor the document start marker, and the indentation of the root
  sequence is that of the first item line.
\<close>

definition enter_document :: "pystr \<Rightarrow> scan_state \<Rightarrow> scan_state" where
  "enter_document line st =
     (if \<not> past_start_of_document st \<and> \<not> line_is_a_normal_comment line
         \<and> \<not> line_is_start_of_document line
      then st\<lparr>past_start_of_document := True\<rparr> else st)"

definition note_indentation :: "pystr \<Rightarrow> 'a scan_state_scheme \<Rightarrow> 'a scan_state_scheme" where
  "note_indentation line st =
     (if is_item_line line \<and> indentation st = None
      then st\<lparr>indentation := Some (indent_of line)\<rparr> else st)"

definition starts_root_item :: "pystr \<Rightarrow> 'a scan_state_scheme \<Rightarrow> bool" where
  "starts_root_item line st \<longleftrightarrow> is_item_line line \<and> Some (indent_of line) = indentation st"

text \<open>
  The previous rule has ended (source lines 329 to 335): the buffer keeps the lines after
  its last line that is neither blank nor a comment.
\<close>

definition end_previous_rule :: "scan_state \<Rightarrow> scan_state" where
  "end_previous_rule st =
     st\<lparr>buffered_lines :=
          del_up_to (last_buffered_non_blank_non_comment_line st) (buffered_lines st),
        last_buffered_non_blank_non_comment_line := None,
        current_rule_key := None,
        found_name_key := False\<rparr>"

text \<open>
  One turn of the loop \<^verbatim>\<open>for line in inf\<close>: \<open>Inr (True, st)\<close> is the \<^verbatim>\<open>break\<close>.
\<close>

definition grab_step ::
    "loader \<Rightarrow> pystr \<Rightarrow> bool \<Rightarrow> pystr \<Rightarrow> scan_state \<Rightarrow> py_error + (bool \<times> scan_state)" where
  "grab_step load missing_rule_key is_a_unicode_file line st =
     (let st1 = enter_document line st
      in if past_start_of_document st1 \<and> \<not> line_is_a_translation_audit_comment line then
           (let st2 = note_indentation line st1
            in if starts_root_item line st2 then
                 (if Some missing_rule_key = current_rule_key st2 then Inr (True, st2)
                  else
                    (case detect_rule_key load is_a_unicode_file line
                            (buffer_line line (end_previous_rule st2)) of
                       Inl e \<Rightarrow> Inl e
                     | Inr st4 \<Rightarrow> Inr (False, st4)))
               else
                 (case detect_rule_key load is_a_unicode_file line (buffer_line line st2) of
                    Inl e \<Rightarrow> Inl e
                  | Inr st4 \<Rightarrow> Inr (False, st4)))
         else Inr (False, st1))"

fun grab_loop ::
    "loader \<Rightarrow> pystr \<Rightarrow> bool \<Rightarrow> pystr list \<Rightarrow> scan_state \<Rightarrow> py_error + scan_state" where
  "grab_loop load missing_rule_key is_a_unicode_file [] st = Inr st"
| "grab_loop load missing_rule_key is_a_unicode_file (line # rest) st =
     (case grab_step load missing_rule_key is_a_unicode_file line st of
        Inl e \<Rightarrow> Inl e
      | Inr (stop, st') \<Rightarrow>
          if stop then Inr st' else grab_loop load missing_rule_key is_a_unicode_file rest st')"

text \<open>
  \<^verbatim>\<open>grab_missing_rule_lines\<close>; its second argument is here the lines of the file that
  the source opens by name.
\<close>

definition grab_missing_rule_lines ::
    "loader \<Rightarrow> pystr \<Rightarrow> pystr list \<Rightarrow> bool \<Rightarrow> py_error + pystr list" where
  "grab_missing_rule_lines load missing_rule_key from_file is_a_unicode_file =
     (case grab_loop load missing_rule_key is_a_unicode_file from_file initial_scan_state of
        Inl e \<Rightarrow> Inl e
      | Inr st \<Rightarrow>
          if length (buffered_lines st) > 0 \<and> Some missing_rule_key = current_rule_key st
          then Inr (del_from (last_buffered_non_blank_non_comment_line st) (buffered_lines st))
          else Inr [])"

text \<open>
  The key that the segmenter derives from a list of lines taken alone: the lines are
  buffered one by one from an empty buffer, and after each the key is looked for as in
  the loops of the source (\<open>buffer_line\<close> and \<open>detect_rule_key\<close>), the indentation being
  known from the first item line on.
\<close>

definition blank_or_comment :: "pystr \<Rightarrow> bool" where
  "blank_or_comment l = (line_is_blank l \<or> line_is_a_normal_comment l)"

definition rescan_step :: "loader \<Rightarrow> bool \<Rightarrow> pystr \<Rightarrow> scan_state \<Rightarrow> py_error + scan_state" where
  "rescan_step load is_a_unicode_file line st =
     detect_rule_key load is_a_unicode_file line (buffer_line line (note_indentation line st))"

fun rescan_loop :: "loader \<Rightarrow> bool \<Rightarrow> pystr list \<Rightarrow> scan_state \<Rightarrow> py_error + scan_state" where
  "rescan_loop load is_a_unicode_file [] st = Inr st"
| "rescan_loop load is_a_unicode_file (line # rest) st =
     (case rescan_step load is_a_unicode_file line st of
        Inl e \<Rightarrow> Inl e
      | Inr st' \<Rightarrow> rescan_loop load is_a_unicode_file rest st')"



text \<open>A literal line with its line feed, for the examples.\<close>

definition nl :: "string \<Rightarrow> pystr" where
  "nl s = str s @ [10]"



text \<open>An English file of four rules, the first and the last with a comment.\<close>

definition english_example :: "pystr list" where
  \<open>english_example =
     [nl ''---'', nl [], nl ''# about a'', nl ''- "a": [t: "x"]'', nl ''- "b": [t: "y"]'',
      nl ''- "c": [t: "z"]'', nl ''# about d'', nl ''- "d": [t: "w"]'']\<close>

section \<open>The registries and the report\<close>

text \<open>
  What \<^verbatim>\<open>main\<close> prints, one constructor for each \<^verbatim>\<open>print\<close> of the source, carrying
  the values the message interpolates: the number of items and the mode; a duplicate key
  (display form) and its file; a rule (display form) with its count of keys to
  translate; a rule missing in the translated file; a rule that the English file has
  not; a rule with differences, followed by one line for each warning of the comparison;
  the stop for duplicate keys; and the messages of the rewriting.
\<close>

datatype origin = English | Translated

datatype message =
    Processing nat bool
  | DuplicateKey pystr origin
  | StillContains pystr nat
  | MissingInTranslated pystr
  | NotInEnglish pystr
  | ContainsDifferences pystr
  | Detail warning
  | Stopping
  | CreatingNewVersion
  | MissingRulesHeader
  | MissingAfter pystr "pystr option"
  | EmptyLine
  | NewVersionCreated pystr pystr
  | NewRulesCount nat
  | NeedTranslationCount nat
  | NotInEnglishCount nat
  | DifferencesCount nat
  | NoChangesNeeded pystr

text \<open>
  \<^verbatim>\<open>format_rule_key_for_display\<close>: the key in quotes, followed for a key of one character
  by its code point in at least four hexadecimal digits (\<^verbatim>\<open>format(ord(rule_key), '04x')\<close>).
\<close>

fun hex_of_nat :: "nat \<Rightarrow> pystr" where
  "hex_of_nat n =
     (if n < 16 then [if n < 10 then 48 + n else 87 + n]
      else hex_of_nat (n div 16) @ [if n mod 16 < 10 then 48 + n mod 16 else 87 + n mod 16])"

declare hex_of_nat.simps [simp del]

definition format_04x :: "nat \<Rightarrow> pystr" where
  "format_04x n = replicate (4 - length (hex_of_nat n)) 48 @ hex_of_nat n"

definition format_rule_key_for_display :: "pystr \<Rightarrow> pystr" where
  "format_rule_key_for_display rule_key =
     (if length rule_key = 1
      then [39] @ rule_key @ [39] @ str '' (Unicode char: '' @ [92, 117]
           @ format_04x (hd rule_key) @ str '')''
      else [39] @ rule_key @ [39])"

text \<open>
  The key under which a rule of the root sequence is registered, or \<open>None\<close> for a rule
  that is passed over. In a unicode file it is the first key of the rule
  (\<^verbatim>\<open>list(rule.keys())[0]\<close>); otherwise the rule needs a name and a tag. A registered
  rule is always a mapping: \<^verbatim>\<open>rule.keys()\<close> and \<^verbatim>\<open>rule["tag"]\<close> raise on the other
  values.
\<close>

definition registry_key :: "bool \<Rightarrow> yval \<Rightarrow> py_error + (pystr \<times> ydict) option" where
  "registry_key unicode_yaml_file rule =
     (if unicode_yaml_file then
        (case rule of
           YDict d \<Rightarrow> (case d of [] \<Rightarrow> Inl IndexError | (k, v) # rest \<Rightarrow> Inr (Some (k, d)))
         | _ \<Rightarrow> Inl AttributeError)
      else
        (case has_name_and_tag rule of
           Inl e \<Rightarrow> Inl e
         | Inr both \<Rightarrow>
             if both then
               (case rule_key_of rule of
                  Inl e \<Rightarrow> Inl e
                | Inr k \<Rightarrow> (case rule of YDict d \<Rightarrow> Inr (Some (k, d)) | _ \<Rightarrow> Inl TypeError))
             else Inr None))"

text \<open>
  A Python mapping with its insertion order: assigning to a key that is there keeps its
  place, deleting removes the entry.
\<close>

fun dict_set :: "'k \<Rightarrow> 'v \<Rightarrow> ('k \<times> 'v) list \<Rightarrow> ('k \<times> 'v) list" where
  "dict_set k v [] = [(k, v)]"
| "dict_set k v ((k', v') # d) = (if k = k' then (k, v) # d else (k', v') # dict_set k v d)"

definition dict_del :: "'k \<Rightarrow> ('k \<times> 'v) list \<Rightarrow> ('k \<times> 'v) list" where
  "dict_del k d = filter (\<lambda>e. fst e \<noteq> k) d"

definition has_key :: "'k \<Rightarrow> ('k \<times> 'v) list \<Rightarrow> bool" where
  "has_key k d = (k \<in> set (map fst d))"

record registry =
  rules_by_key :: "(pystr \<times> ydict) list"
  occurs_after :: "(pystr \<times> pystr option) list"
  previous_rule_key :: "pystr option"
  duplicate_keys :: bool

definition empty_registry :: registry where
  "empty_registry =
     \<lparr>rules_by_key = [], occurs_after = [], previous_rule_key = None, duplicate_keys = False\<rparr>"

text \<open>
  The two loops that fill \<^verbatim>\<open>english_dict\<close> and \<^verbatim>\<open>translated_dict\<close> (the second
  keeps no predecessor). The messages printed before an exception stay printed: a
  result is the list of the messages and the value or the exception.
\<close>

fun register_rules ::
    "bool \<Rightarrow> origin \<Rightarrow> yval list \<Rightarrow> registry \<Rightarrow> message list \<times> (py_error + registry)" where
  "register_rules unicode_yaml_file file [] reg = ([], Inr reg)"
| "register_rules unicode_yaml_file file (rule # rules) reg =
     (case registry_key unicode_yaml_file rule of
        Inl e \<Rightarrow> ([], Inl e)
      | Inr None \<Rightarrow> register_rules unicode_yaml_file file rules reg
      | Inr (Some (rule_key, d)) \<Rightarrow>
          if has_key rule_key (rules_by_key reg) then
            (let (msgs, r) = register_rules unicode_yaml_file file rules
                               (reg\<lparr>duplicate_keys := True, previous_rule_key := Some rule_key\<rparr>)
             in (DuplicateKey (format_rule_key_for_display rule_key) file # msgs, r))
          else
            register_rules unicode_yaml_file file rules
              (reg\<lparr>rules_by_key := rules_by_key reg @ [(rule_key, d)],
                   occurs_after := (if file = English
                                    then occurs_after reg @ [(rule_key, previous_rule_key reg)]
                                    else occurs_after reg),
                   previous_rule_key := Some rule_key\<rparr>))"

text \<open>
  \<^verbatim>\<open>for rule in english_rules\<close> and \<^verbatim>\<open>len(english_rules)\<close> on the loaded document:
  a sequence gives its elements, a mapping its keys, a string its characters.
\<close>

definition py_iter :: "yval \<Rightarrow> py_error + yval list" where
  "py_iter v =
     (case v of
        YList xs \<Rightarrow> Inr xs
      | YDict d \<Rightarrow> Inr (map (\<lambda>e. YScalar (SStr (fst e))) d)
      | YScalar (SStr s) \<Rightarrow> Inr (map (\<lambda>c. YScalar (SStr [c])) s)
      | YScalar _ \<Rightarrow> Inl TypeError)"

text \<open>The four reports that follow the registries (source lines 471 to 513).\<close>

fun report_untranslated :: "(pystr \<times> ydict) list \<Rightarrow> (pystr \<times> nat) list \<times> message list" where
  "report_untranslated [] = ([], [])"
| "report_untranslated ((rule_key, rule) # rest) =
     (let n = count_untranslated_keys_in_dict rule;
          (found, msgs) = report_untranslated rest
      in if n > 0
         then ((rule_key, n) # found, StillContains (format_rule_key_for_display rule_key) n # msgs)
         else (found, msgs))"

fun report_missing ::
    "(pystr \<times> ydict) list \<Rightarrow> (pystr \<times> pystr option) list \<Rightarrow> (pystr \<times> ydict) list
     \<Rightarrow> (pystr option \<times> pystr) list
     \<Rightarrow> message list \<times> (py_error + (pystr option \<times> pystr) list)" where
  "report_missing [] after translated_dict missing = ([], Inr missing)"
| "report_missing ((rule_key, rule) # rest) after translated_dict missing =
     (if \<not> has_key rule_key translated_dict then
        (case map_of after rule_key of
           None \<Rightarrow> ([], Inl KeyError)
         | Some prev \<Rightarrow>
             (let (msgs, r) = report_missing rest after translated_dict
                                (dict_set prev rule_key missing)
              in (MissingInTranslated (format_rule_key_for_display rule_key) # msgs, r)))
      else report_missing rest after translated_dict missing)"

fun report_extra :: "(pystr \<times> ydict) list \<Rightarrow> (pystr \<times> ydict) list \<Rightarrow> pystr list \<times> message list" where
  "report_extra [] english_dict = ([], [])"
| "report_extra ((rule_key, rule) # rest) english_dict =
     (let (found, msgs) = report_extra rest english_dict
      in if \<not> has_key rule_key english_dict
         then (rule_key # found, NotInEnglish (format_rule_key_for_display rule_key) # msgs)
         else (found, msgs))"

fun report_differences ::
    "(pystr \<times> ydict) list \<Rightarrow> (pystr \<times> ydict) list \<Rightarrow> message list \<times> (py_error + pystr list)" where
  "report_differences [] translated_dict = ([], Inr [])"
| "report_differences ((rule_key, english_rule) # rest) translated_dict =
     (case map_of translated_dict rule_key of
        None \<Rightarrow> report_differences rest translated_dict
      | Some translated_rule \<Rightarrow>
          (case dictionaries_are_the_same_besides_translations english_rule
                  (YDict translated_rule) rule_key of
             Inl e \<Rightarrow> ([], Inl e)
           | Inr (warnings, same_flag) \<Rightarrow>
               (let (msgs, r) = report_differences rest translated_dict
                in if \<not> same_flag
                   then (ContainsDifferences (format_rule_key_for_display rule_key)
                           # map Detail warnings @ msgs,
                         case r of Inl e \<Rightarrow> Inl e | Inr found \<Rightarrow> Inr (rule_key # found))
                   else (msgs, r))))"

section \<open>The rewriting pass\<close>

text \<open>
  The output file is the list of what is written to it, in order: \<open>Copied\<close> for a line
  of the translated or of the English file that is written as it is, \<open>Annotation\<close> for a
  text that the pass makes itself (an audit comment or the line feed before the first
  one).
\<close>

datatype chunk = Copied pystr | Annotation pystr

fun chunk_text :: "chunk \<Rightarrow> pystr" where
  "chunk_text (Copied s) = s"
| "chunk_text (Annotation s) = s"

definition new_rule_annotation :: "nat \<Rightarrow> pystr \<Rightarrow> pystr" where
  "new_rule_annotation ind rule_key =
     replicate ind 32 @ str ''# [AUDIT] NEW RULE '' @ [39] @ rule_key @ [39]
     @ str '' THAT NEEDS TRANSLATION'' @ [10]"

definition needs_translation_annotation :: "nat \<Rightarrow> pystr \<Rightarrow> nat \<Rightarrow> pystr" where
  "needs_translation_annotation ind rule_key n =
     replicate ind 32 @ str ''# [AUDIT] RULE '' @ [39] @ rule_key @ [39]
     @ str '' NEEDS TRANSLATION OF '' @ string_of_nat n @ str '' KEYS'' @ [10]"

definition not_in_english_annotation :: "nat \<Rightarrow> pystr \<Rightarrow> pystr" where
  "not_in_english_annotation ind rule_key =
     replicate ind 32 @ str ''# [AUDIT] RULE '' @ [39] @ rule_key @ [39]
     @ str '' RULE NOT IN ENGLISH FILE'' @ [10]"

definition has_differences_annotation :: "nat \<Rightarrow> pystr \<Rightarrow> pystr" where
  "has_differences_annotation ind rule_key =
     replicate ind 32 @ str ''# [AUDIT] RULE '' @ [39] @ rule_key @ [39]
     @ str '' HAS DIFFERENCES OTHER THAN TRANSLATION'' @ [10]"

text \<open>
  The variables of the loop of \<^verbatim>\<open>main\<close> over the translated file, with the sets that
  the reports have filled.
\<close>

record rewrite_state = scan_state +
  out_file :: "chunk list"
  contains_audit_comments :: bool
  buffered_line_containing_name_key :: "nat option"
  rule_missing_in_translated_file_after :: "(pystr option \<times> pystr) list"
  count_of_needs_translation_comments :: nat
  count_of_new_rule_comments :: nat
  count_of_contains_differences_comments :: nat
  count_of_rule_not_in_english_file_comments :: nat

record verdicts =
  rules_with_untranslated_keys :: "(pystr \<times> nat) list"
  rules_extra_in_translated_file :: "pystr list"
  rules_with_differences :: "pystr list"

text \<open>
  An exception leaves the pass with what has been written so far.
\<close>

type_synonym 'a pass_result = "(py_error \<times> chunk list) + 'a"

text \<open>
  The loop \<^verbatim>\<open>for missing_line in missing_lines\<close> (source lines 610 to 620 and 698 to
  708): what it writes, and how many NEW RULE comments it adds. \<open>written\<close> is the output
  so far, for the exception of \<^verbatim>\<open>" " * indentation\<close> when no indentation is known.
\<close>

fun missing_rule_chunks ::
    "bool \<Rightarrow> nat option \<Rightarrow> bool \<Rightarrow> pystr \<Rightarrow> pystr list \<Rightarrow> bool \<Rightarrow> chunk list
     \<Rightarrow> (chunk list \<times> nat) pass_result" where
  "missing_rule_chunks unicode_yaml_file ind at_start missing_rule_key [] comment_added written =
     Inr (written, 0)"
| "missing_rule_chunks unicode_yaml_file ind at_start missing_rule_key (missing_line # rest)
     comment_added written =
     (if \<not> comment_added \<and> (unicode_yaml_file \<or> line_starts_rule_name missing_line) then
        (let written1 = (if at_start then written @ [Annotation [10]] else written)
         in case ind of
              None \<Rightarrow> Inl (TypeError, written1)
            | Some i \<Rightarrow>
                (case missing_rule_chunks unicode_yaml_file ind at_start missing_rule_key rest True
                        (written1 @ [Annotation (new_rule_annotation i missing_rule_key),
                                     Copied missing_line]) of
                   Inl e \<Rightarrow> Inl e
                 | Inr (w, n) \<Rightarrow> Inr (w, Suc n)))
      else missing_rule_chunks unicode_yaml_file ind at_start missing_rule_key rest comment_added
             (written @ [Copied missing_line]))"

text \<open>
  The loop \<^verbatim>\<open>while current_rule_key in rule_missing_in_translated_file_after\<close>: each
  turn deletes an entry of the mapping.
\<close>

lemma dict_del_shorter:
  "map_of d k = Some v \<Longrightarrow> length (dict_del k d) < length d"
proof (induction d)
  case Nil
  then show ?case by simp
next
  case (Cons e d)
  have le: "length (filter (\<lambda>e. fst e \<noteq> k) d) < Suc (length d)"
    by (rule le_imp_less_Suc) (rule length_filter_le)
  show ?case
  proof (cases "fst e = k")
    case True
    with le show ?thesis by (simp add: dict_del_def)
  next
    case False
    with Cons show ?thesis by (cases e) (auto simp: dict_del_def)
  qed
qed

function insert_missing_rules ::
    "loader \<Rightarrow> pystr list \<Rightarrow> bool \<Rightarrow> 'a rewrite_state_scheme
     \<Rightarrow> 'a rewrite_state_scheme pass_result" where
  "insert_missing_rules load english_lines unicode_yaml_file st =
     (case map_of (rule_missing_in_translated_file_after st) (current_rule_key st) of
        None \<Rightarrow> Inr st
      | Some missing_rule_key \<Rightarrow>
          (case grab_missing_rule_lines load missing_rule_key english_lines unicode_yaml_file of
             Inl e \<Rightarrow> Inl (e, out_file st)
           | Inr missing_lines \<Rightarrow>
               (case missing_rule_chunks unicode_yaml_file (indentation st)
                       (current_rule_key st = None) missing_rule_key missing_lines False
                       (out_file st) of
                  Inl e \<Rightarrow> Inl e
                | Inr (written, n) \<Rightarrow>
                    insert_missing_rules load english_lines unicode_yaml_file
                      (st\<lparr>out_file := written,
                          count_of_new_rule_comments := count_of_new_rule_comments st + n,
                          rule_missing_in_translated_file_after :=
                            dict_del (current_rule_key st)
                              (rule_missing_in_translated_file_after st),
                          current_rule_key := Some missing_rule_key\<rparr>))))"
  by pat_completeness auto
termination
  by (relation "measure (\<lambda>(load, english_lines, unicode_yaml_file, st).
         length (rule_missing_in_translated_file_after st))")
     (auto simp: dict_del_shorter)

text \<open>
  \<^verbatim>\<open>write_any_leading_blank_lines\<close> and the three comments for a rule whose key has just
  been found (source lines 646 to 675).
\<close>

definition write_any_leading_blank_lines :: "'a rewrite_state_scheme \<Rightarrow> 'a rewrite_state_scheme" where
  "write_any_leading_blank_lines st =
     st\<lparr>out_file := out_file st @ map Copied (takeWhile line_is_blank (buffered_lines st)),
        buffered_lines := dropWhile line_is_blank (buffered_lines st)\<rparr>"

definition announce_rule ::
    "verdicts \<Rightarrow> 'a rewrite_state_scheme \<Rightarrow> 'a rewrite_state_scheme pass_result" where
  "announce_rule v st =
     (let st1 = (case buffered_line_containing_name_key st of
                   None \<Rightarrow> st
                 | Some n \<Rightarrow>
                     if n > 1
                     then st\<lparr>out_file := out_file st @ map Copied (take (n - 1) (buffered_lines st)),
                             buffered_lines := drop (n - 1) (buffered_lines st)\<rparr>
                     else st);
          st2 = st1\<lparr>buffered_line_containing_name_key := None\<rparr>
      in case current_rule_key st2 of
           None \<Rightarrow> Inr st2
         | Some k \<Rightarrow>
             (case indentation st2 of
                None \<Rightarrow>
                  if has_key k (rules_with_untranslated_keys v)
                     \<or> k \<in> set (rules_extra_in_translated_file v)
                     \<or> k \<in> set (rules_with_differences v)
                  then Inl (TypeError,
                            out_file st2 @ map Copied (takeWhile line_is_blank (buffered_lines st2)))
                  else Inr st2
              | Some ind \<Rightarrow>
                  (let st3 = (case map_of (rules_with_untranslated_keys v) k of
                                None \<Rightarrow> st2
                              | Some n \<Rightarrow>
                                  (let w = write_any_leading_blank_lines st2
                                   in w\<lparr>out_file := out_file w
                                            @ [Annotation (needs_translation_annotation ind k n)],
                                        count_of_needs_translation_comments :=
                                          count_of_needs_translation_comments w + 1\<rparr>));
                       st4 = (if k \<in> set (rules_extra_in_translated_file v)
                              then (let w = write_any_leading_blank_lines st3
                                    in w\<lparr>out_file := out_file w
                                             @ [Annotation (not_in_english_annotation ind k)],
                                         count_of_rule_not_in_english_file_comments :=
                                           count_of_rule_not_in_english_file_comments w + 1\<rparr>)
                              else st3);
                       st5 = (if k \<in> set (rules_with_differences v)
                              then (let w = write_any_leading_blank_lines st4
                                    in w\<lparr>out_file := out_file w
                                             @ [Annotation (has_differences_annotation ind k)],
                                         count_of_contains_differences_comments :=
                                           count_of_contains_differences_comments w + 1\<rparr>)
                              else st4)
                   in Inr st5)))"

text \<open>
  The search for the key in the loop of \<^verbatim>\<open>main\<close> (source lines 632 to 675). It differs
  from that of \<^verbatim>\<open>grab_missing_rule_lines\<close>: the test for the name is an \<^verbatim>\<open>elif\<close>, and
  the place of the line with the name is kept.
\<close>

definition find_rule_key ::
    "loader \<Rightarrow> bool \<Rightarrow> verdicts \<Rightarrow> pystr \<Rightarrow> 'a rewrite_state_scheme
     \<Rightarrow> 'a rewrite_state_scheme pass_result" where
  "find_rule_key load unicode_yaml_file v line st =
     (if indentation st \<noteq> None \<and> current_rule_key st = None then
        (let st1 = (if unicode_yaml_file then st\<lparr>current_rule_key := get_key_from_line line\<rparr>
                    else if line_has_name_key line
                    then st\<lparr>found_name_key := True,
                            buffered_line_containing_name_key := Some (length (buffered_lines st))\<rparr>
                    else st)
         in if found_name_key st1 \<and> line_has_tag_key line then
              (case get_rule_key_from_buffered_lines load (buffered_lines st1) of
                 Inl e \<Rightarrow> Inl (e, out_file st1)
               | Inr k \<Rightarrow> announce_rule v (st1\<lparr>current_rule_key := k\<rparr>))
            else if unicode_yaml_file then announce_rule v st1
            else Inr st1)
      else Inr st)"

text \<open>
  One turn of the loop \<^verbatim>\<open>for line in in_file\<close> (source lines 559 to 675).
\<close>

definition flush_previous_rule :: "'a rewrite_state_scheme \<Rightarrow> 'a rewrite_state_scheme" where
  "flush_previous_rule st =
     (case last_buffered_non_blank_non_comment_line st of
        None \<Rightarrow> st
      | Some n \<Rightarrow>
          if length (buffered_lines st) > 0
          then st\<lparr>out_file := out_file st @ map Copied (take n (buffered_lines st)),
                  buffered_lines := drop n (buffered_lines st),
                  last_buffered_non_blank_non_comment_line := None\<rparr>
          else st)"

definition leave_preamble :: "pystr \<Rightarrow> 'a rewrite_state_scheme \<Rightarrow> 'a rewrite_state_scheme" where
  "leave_preamble line st =
     (if \<not> past_start_of_document st then
        (if \<not> line_is_a_normal_comment line \<and> \<not> line_is_start_of_document line
         then st\<lparr>past_start_of_document := True,
                 out_file := out_file st @ map Copied (buffered_lines st),
                 buffered_lines := []\<rparr>
         else st\<lparr>buffered_lines := buffered_lines st @ [line]\<rparr>)
      else st)"

definition rewrite_step ::
    "loader \<Rightarrow> pystr list \<Rightarrow> bool \<Rightarrow> verdicts \<Rightarrow> pystr \<Rightarrow> 'a rewrite_state_scheme
     \<Rightarrow> 'a rewrite_state_scheme pass_result" where
  "rewrite_step load english_lines unicode_yaml_file v line st =
     (if line_is_a_translation_audit_comment line then Inr (st\<lparr>contains_audit_comments := True\<rparr>)
      else
        (let st1 = leave_preamble line st
         in if past_start_of_document st1 \<and> \<not> line_is_a_translation_audit_comment line then
              (let st2 = note_indentation line st1
               in if starts_root_item line st2 then
                    (case insert_missing_rules load english_lines unicode_yaml_file
                            (flush_previous_rule st2) of
                       Inl e \<Rightarrow> Inl e
                     | Inr st4 \<Rightarrow>
                         find_rule_key load unicode_yaml_file v line
                           (buffer_line line
                              (st4\<lparr>current_rule_key := None, found_name_key := False,
                                   buffered_line_containing_name_key := None\<rparr>)))
                  else find_rule_key load unicode_yaml_file v line (buffer_line line st2))
            else Inr st1))"

fun rewrite_loop ::
    "loader \<Rightarrow> pystr list \<Rightarrow> bool \<Rightarrow> verdicts \<Rightarrow> pystr list \<Rightarrow> 'a rewrite_state_scheme
     \<Rightarrow> 'a rewrite_state_scheme pass_result" where
  "rewrite_loop load english_lines unicode_yaml_file v [] st = Inr st"
| "rewrite_loop load english_lines unicode_yaml_file v (line # rest) st =
     (case rewrite_step load english_lines unicode_yaml_file v line st of
        Inl e \<Rightarrow> Inl e
      | Inr st' \<Rightarrow> rewrite_loop load english_lines unicode_yaml_file v rest st')"

text \<open>
  The end of the file (source lines 677 to 714): the rules that are missing after the
  last rule, then the rest of the buffer. The slice \<^verbatim>\<open>buffered_lines[:None]\<close> is the
  whole buffer.
\<close>

definition slice_to :: "nat option \<Rightarrow> pystr list \<Rightarrow> pystr list" where
  "slice_to n xs = (case n of None \<Rightarrow> xs | Some k \<Rightarrow> take k xs)"

definition rewrite_finish ::
    "loader \<Rightarrow> pystr list \<Rightarrow> bool \<Rightarrow> 'a rewrite_state_scheme
     \<Rightarrow> 'a rewrite_state_scheme pass_result" where
  "rewrite_finish load english_lines unicode_yaml_file st =
     (case (if has_key (current_rule_key st) (rule_missing_in_translated_file_after st)
            then insert_missing_rules load english_lines unicode_yaml_file
                   (st\<lparr>out_file := out_file st
                          @ map Copied (slice_to (last_buffered_non_blank_non_comment_line st)
                                          (buffered_lines st)),
                       buffered_lines := del_up_to (last_buffered_non_blank_non_comment_line st)
                                           (buffered_lines st),
                       last_buffered_non_blank_non_comment_line := None\<rparr>)
            else Inr st) of
        Inl e \<Rightarrow> Inl e
      | Inr st1 \<Rightarrow>
          Inr (st1\<lparr>out_file := out_file st1 @ map Copied (buffered_lines st1)\<rparr>))"

definition initial_rewrite_state :: "(pystr option \<times> pystr) list \<Rightarrow> rewrite_state" where
  "initial_rewrite_state missing =
     \<lparr>indentation = None, past_start_of_document = False, buffered_lines = [],
      last_buffered_non_blank_non_comment_line = None, current_rule_key = None,
      found_name_key = False, out_file = [], contains_audit_comments = False,
      buffered_line_containing_name_key = None,
      rule_missing_in_translated_file_after = missing,
      count_of_needs_translation_comments = 0, count_of_new_rule_comments = 0,
      count_of_contains_differences_comments = 0,
      count_of_rule_not_in_english_file_comments = 0\<rparr>"

definition rewrite_pass ::
    "loader \<Rightarrow> pystr list \<Rightarrow> bool \<Rightarrow> verdicts \<Rightarrow> (pystr option \<times> pystr) list \<Rightarrow> pystr list
     \<Rightarrow> rewrite_state pass_result" where
  "rewrite_pass load english_lines unicode_yaml_file v missing translated_lines =
     (case rewrite_loop load english_lines unicode_yaml_file v translated_lines
             (initial_rewrite_state missing) of
        Inl e \<Rightarrow> Inl e
      | Inr st \<Rightarrow> rewrite_finish load english_lines unicode_yaml_file st)"

section \<open>The files and the run\<close>

text \<open>
  The file system is a map from paths to contents; the content of a file is the list of
  the texts written to it. \<^verbatim>\<open>os.rename\<close> moves a content to a path, \<^verbatim>\<open>os.remove\<close>
  deletes a path. \<^verbatim>\<open>os.path.exists\<close> takes a path or, given an integer or a boolean,
  says whether the file descriptor of that number is open.
\<close>

type_synonym file_system = "pystr \<rightharpoonup> pystr list"

definition os_rename :: "pystr \<Rightarrow> pystr \<Rightarrow> file_system \<Rightarrow> file_system" where
  "os_rename src dst fs = (fs(dst := fs src))(src := None)"

definition os_remove :: "pystr \<Rightarrow> file_system \<Rightarrow> file_system" where
  "os_remove path fs = fs(path := None)"

datatype path_or_fd = PathName pystr | FileDescriptor nat

definition os_path_exists :: "(nat \<Rightarrow> bool) \<Rightarrow> file_system \<Rightarrow> path_or_fd \<Rightarrow> bool" where
  "os_path_exists fd_open fs p =
     (case p of PathName name \<Rightarrow> fs name \<noteq> None | FileDescriptor n \<Rightarrow> fd_open n)"

text \<open>
  \<^verbatim>\<open>backup_file\<close>: the loop looks for the first name, among \<^verbatim>\<open>.bak\<close>, \<^verbatim>\<open>-2.bak\<close>,
  \<^verbatim>\<open>-3.bak\<close> and so on, that does not exist; it returns no value if it finds none.
\<close>

partial_function (option) free_backup_name ::
    "file_system \<Rightarrow> pystr \<Rightarrow> pystr \<Rightarrow> nat \<Rightarrow> pystr option" where
  "free_backup_name fs filename backup_filename counter =
     (if fs backup_filename \<noteq> None
      then free_backup_name fs filename
             (filename @ str ''-'' @ string_of_nat counter @ str ''.bak'') (counter + 1)
      else Some backup_filename)"

definition backup_file :: "pystr \<Rightarrow> file_system \<Rightarrow> (pystr \<times> file_system) option" where
  "backup_file filename fs =
     (case free_backup_name fs filename (filename @ str ''.bak'') 2 of
        None \<Rightarrow> None
      | Some backup_filename \<Rightarrow> Some (backup_filename, os_rename filename backup_filename fs))"

text \<open>
  The arguments and the surroundings of a run. The unicode flag is the value that the
  source computes from the option and the name of the translated file; the name of the
  temporary file is the one that \<^verbatim>\<open>tempfile.NamedTemporaryFile\<close> picks.
\<close>

record arguments =
  translated_rules :: pystr
  new_version_mode :: bool
  unicode_yaml_file :: bool

record surroundings =
  files :: file_system
  temp_file_name :: pystr
  fd_open :: "nat \<Rightarrow> bool"

record run =
  printed :: "message list"
  files_after :: file_system
  exit_status :: "py_error + nat"

text \<open>
  The argument of \<^verbatim>\<open>os.path.exists\<close> at source line 751,
  \<^verbatim>\<open>temp_file_name and temp_file_name != args.translated_rules\<close>: the empty name if the
  name is empty, else the boolean, which \<^verbatim>\<open>os.path.exists\<close> reads as the file descriptor
  1 or 0.
\<close>

definition temp_name_and_differs :: "pystr \<Rightarrow> pystr \<Rightarrow> path_or_fd" where
  "temp_name_and_differs temp translated =
     (if temp = [] then PathName []
      else FileDescriptor (if temp \<noteq> translated then 1 else 0))"

text \<open>
  The end of \<^verbatim>\<open>main\<close> in the mode \<^verbatim>\<open>new_version\<close>, after the pass has written the
  temporary file (source lines 716 to 754).
\<close>

definition install_new_version ::
    "arguments \<Rightarrow> surroundings \<Rightarrow> message list \<Rightarrow> rewrite_state \<Rightarrow> run option" where
  "install_new_version args env msgs st =
     (let fs = (files env)(temp_file_name env \<mapsto> map chunk_text (out_file st));
          total_new_comments_added =
            count_of_contains_differences_comments st
            + count_of_rule_not_in_english_file_comments st
            + count_of_needs_translation_comments st
            + count_of_new_rule_comments st
      in if contains_audit_comments st \<or> total_new_comments_added > 0 then
           (case backup_file (translated_rules args) fs of
              None \<Rightarrow> None
            | Some (backup_filename, fs1) \<Rightarrow>
                Some \<lparr>printed = msgs
                        @ [NewVersionCreated (translated_rules args) backup_filename]
                        @ (if count_of_new_rule_comments st > 0
                           then [NewRulesCount (count_of_new_rule_comments st)] else [])
                        @ (if count_of_needs_translation_comments st > 0
                           then [NeedTranslationCount (count_of_needs_translation_comments st)]
                           else [])
                        @ (if count_of_rule_not_in_english_file_comments st > 0
                           then [NotInEnglishCount (count_of_rule_not_in_english_file_comments st)]
                           else [])
                        @ (if count_of_contains_differences_comments st > 0
                           then [DifferencesCount (count_of_contains_differences_comments st)]
                           else []),
                      files_after = os_rename (temp_file_name env) (translated_rules args) fs1,
                      exit_status = Inr 0\<rparr>)
         else
           Some \<lparr>printed = msgs @ [NoChangesNeeded (translated_rules args)],
                 files_after =
                   (if os_path_exists (fd_open env) fs
                         (temp_name_and_differs (temp_file_name env) (translated_rules args))
                    then os_remove (temp_file_name env) fs else fs),
                 exit_status = Inr 0\<rparr>)"

text \<open>
  The first part of \<^verbatim>\<open>main\<close> (source lines 405 to 513), from the two loaded
  documents: the registries and the four reports, with what is printed. An exception
  ends it with what has been printed so far.
\<close>

record findings =
  english :: registry
  translated :: registry
  untranslated :: "(pystr \<times> nat) list"
  missing_after :: "(pystr option \<times> pystr) list"
  extra :: "pystr list"
  different :: "pystr list"

definition register_file ::
    "bool \<Rightarrow> origin \<Rightarrow> yval \<Rightarrow> message list \<times> (py_error + registry)" where
  "register_file unicode_flag file doc =
     (case py_iter doc of
        Inl e \<Rightarrow> ([], Inl e)
      | Inr items \<Rightarrow> register_rules unicode_flag file items empty_registry)"

definition compare_registries :: "registry \<Rightarrow> registry \<Rightarrow> message list \<times> (py_error + findings)" where
  "compare_registries eng tra =
     (let (untr, m3) = report_untranslated (rules_by_key tra);
          (m4, r4) = report_missing (rules_by_key eng) (occurs_after eng) (rules_by_key tra) []
      in case r4 of
           Inl e \<Rightarrow> (m3 @ m4, Inl e)
         | Inr missing \<Rightarrow>
             (let (ext, m5) = report_extra (rules_by_key tra) (rules_by_key eng);
                  (m6, r6) = report_differences (rules_by_key eng) (rules_by_key tra)
              in case r6 of
                   Inl e \<Rightarrow> (m3 @ m4 @ m5 @ m6, Inl e)
                 | Inr diff \<Rightarrow>
                     (m3 @ m4 @ m5 @ m6,
                      Inr \<lparr>english = eng, translated = tra, untranslated = untr,
                           missing_after = missing, extra = ext, different = diff\<rparr>)))"

definition audit :: "bool \<Rightarrow> yval \<Rightarrow> yval \<Rightarrow> message list \<times> (py_error + findings)" where
  "audit unicode_flag english_rules translated_rules_doc =
     (case py_len english_rules of
        Inl e \<Rightarrow> ([], Inl e)
      | Inr n \<Rightarrow>
          (let m0 = [Processing n unicode_flag];
               (m1, r1) = register_file unicode_flag English english_rules
           in case r1 of
                Inl e \<Rightarrow> (m0 @ m1, Inl e)
              | Inr eng \<Rightarrow>
                  (let (m2, r2) = register_file unicode_flag Translated translated_rules_doc
                   in case r2 of
                        Inl e \<Rightarrow> (m0 @ m1 @ m2, Inl e)
                      | Inr tra \<Rightarrow>
                          (let (m, r) = compare_registries eng tra
                           in (m0 @ m1 @ m2 @ m, r)))))"

text \<open>
  \<^verbatim>\<open>main\<close>, from the loaded documents and the lines of the two files. An exception
  ends the run with a status that is not zero; if it is raised in the rewriting pass,
  the temporary file stays with what has been written. The result is \<open>None\<close> if the
  run does not end.
\<close>

definition main ::
    "loader \<Rightarrow> arguments \<Rightarrow> surroundings \<Rightarrow> yval \<Rightarrow> yval \<Rightarrow> pystr list \<Rightarrow> pystr list
     \<Rightarrow> run option" where
  "main load args env english_rules translated_rules_doc english_lines translated_lines =
     (case audit (unicode_yaml_file args) english_rules translated_rules_doc of
        (msgs, Inl e) \<Rightarrow>
          Some \<lparr>printed = msgs, files_after = files env, exit_status = Inl e\<rparr>
      | (msgs, Inr f) \<Rightarrow>
          if duplicate_keys (translated f) \<or> duplicate_keys (english f) then
            Some \<lparr>printed = msgs @ [Stopping], files_after = files env, exit_status = Inr 1\<rparr>
          else if new_version_mode args then
            (let msgs1 = msgs @ [CreatingNewVersion, MissingRulesHeader]
                           @ map (\<lambda>(rule_key, v). MissingAfter v rule_key) (missing_after f)
                           @ [EmptyLine]
             in case rewrite_pass load english_lines (unicode_yaml_file args)
                       \<lparr>rules_with_untranslated_keys = untranslated f,
                        rules_extra_in_translated_file = extra f,
                        rules_with_differences = different f\<rparr>
                       (missing_after f) translated_lines of
                  Inl (e, written) \<Rightarrow>
                    Some \<lparr>printed = msgs1,
                          files_after = (files env)(temp_file_name env \<mapsto> map chunk_text written),
                          exit_status = Inl e\<rparr>
                | Inr st \<Rightarrow> install_new_version args env msgs1 st)
          else Some \<lparr>printed = msgs, files_after = files env, exit_status = Inr 0\<rparr>)"

section \<open>What the counter counts\<close>

lemma count_as_filter:
  "count_untranslated_keys_in_dict d
     = length (filter (\<lambda>k. k \<in> {str ''t'', str ''ot'', str ''oc''}) (keys_reached d))"
  "count_in_items xs
     = length (filter (\<lambda>k. k \<in> {str ''t'', str ''ot'', str ''oc''}) (keys_reached_items xs))"
  by (induction d and xs rule: count_untranslated_keys_in_dict_count_in_items.induct)
     (auto simp: untranslated_keys_def str_def split: yval.splits)

text \<open>
  C10. For every record mapping, \<open>count_untranslated_keys_in_dict\<close> returns the number of
  occurrences of the keys \<open>t\<close>, \<open>ot\<close> and \<open>oc\<close> among the keys of the mapping, of its
  mapping-valued fields (recursively) and of the mapping elements of its list-valued
  fields. The counted keys are not the ignored keys of the comparison: \<open>ot\<close> is counted
  and not ignored, while \<open>T\<close>, \<open>OC\<close>, \<open>CT\<close> and \<open>ct\<close> are ignored and not counted. So
  a translated record whose field \<open>ot\<close> differs from the English one is counted as needing
  translation and is reported as different, and a record whose field \<open>T\<close> differs is
  neither counted nor reported.
\<close>

theorem count_untranslated_keys_in_dict_counts:
  "count_untranslated_keys_in_dict d
     = length (filter (\<lambda>k. k \<in> {str ''t'', str ''ot'', str ''oc''}) (keys_reached d))
   \<and> (str ''ot'') \<in> set untranslated_keys \<and> (str ''ot'') \<notin> ignored_keys
   \<and> (str ''T'') \<in> ignored_keys \<and> (str ''T'') \<notin> set untranslated_keys
   \<and> (str ''OC'') \<in> ignored_keys \<and> (str ''OC'') \<notin> set untranslated_keys
   \<and> (str ''CT'') \<in> ignored_keys \<and> (str ''CT'') \<notin> set untranslated_keys
   \<and> (str ''ct'') \<in> ignored_keys \<and> (str ''ct'') \<notin> set untranslated_keys
   \<and> count_untranslated_keys_in_dict [(str ''ot'', YScalar (SStr (str ''b'')))] = 1
   \<and> dictionaries_are_the_same_besides_translations [(str ''ot'', YScalar (SStr (str ''a'')))]
         (YDict [(str ''ot'', YScalar (SStr (str ''b'')))]) p
       = Inr ([ValuesDontMatch (str ''ot'') (key_path p (str ''ot'')), FirstValue (YScalar (SStr (str ''a''))),
               SecondValue (YScalar (SStr (str ''b'')))], False)
   \<and> count_untranslated_keys_in_dict [(str ''T'', YScalar (SStr (str ''b'')))] = 0
   \<and> dictionaries_are_the_same_besides_translations [(str ''T'', YScalar (SStr (str ''a'')))]
         (YDict [(str ''T'', YScalar (SStr (str ''b'')))]) p
       = Inr ([], True)"
  by (simp add: count_as_filter untranslated_keys_def ignored_keys_def str_def)

section \<open>Records that differ only in ignored fields compare as the same\<close>

lemma map_of_erase_visited:
  "map_of (erase_visited d) k
     = (if k \<in> ignored_keys then None else map_option erase_value (map_of d k))"
  by (induction d) auto

lemma in_keys_map_of: "map_of b k = Some v \<Longrightarrow> k \<in> fst ` set b"
  by (metis map_of_eq_None_iff option.distinct(1))

lemma keys_erase_visited: "fst ` set (erase_visited d) = fst ` set d - ignored_keys"
proof (induction d)
  case Nil
  show ?case by simp
next
  case (Cons e d)
  obtain k v where e: "e = (k, v)" by (cases e)
  show ?case using Cons by (cases "k \<in> ignored_keys") (auto simp: e)
qed

lemma distinct_erase_visited: "distinct (map fst d) \<Longrightarrow> distinct (map fst (erase_visited d))"
proof (induction d)
  case Nil
  show ?case by simp
next
  case (Cons e d)
  obtain k v where e: "e = (k, v)" by (cases e)
  have "k \<notin> fst ` set (erase_visited d)" using Cons.prems by (simp add: e keys_erase_visited)
  with Cons show ?case by (simp add: e)
qed

lemma py_eq_items_keys: "py_eq_items a b \<Longrightarrow> fst ` set a \<subseteq> fst ` set b"
proof (induction a)
  case Nil
  show ?case by simp
next
  case (Cons e a)
  obtain k v where e: "e = (k, v)" by (cases e)
  from Cons.prems obtain w where "map_of b k = Some w" "py_eq_items a b"
    by (auto simp: e split: option.splits)
  with Cons.IH in_keys_map_of[of b k w] show ?case by (simp add: e)
qed

lemma same_keys_of_py_eq:
  assumes "distinct (map fst a)" "distinct (map fst b)" "length a = length b" "py_eq_items a b"
  shows "fst ` set a = fst ` set b"
proof -
  have "card (fst ` set a) = card (fst ` set b)"
    using assms(1-3) distinct_card[of "map fst a"] distinct_card[of "map fst b"] by simp
  with py_eq_items_keys[OF assms(4)] show ?thesis
    by (simp add: card_subset_eq)
qed

lemma wf_entries_map_of: "wf_entries d \<Longrightarrow> map_of d k = Some w \<Longrightarrow> wf_yval w"
  by (induction d) (auto split: if_splits)

lemma py_eq_list_length: "py_eq_list a b \<Longrightarrow> length a = length b"
proof (induction a arbitrary: b)
  case Nil
  then show ?case by (cases b) simp_all
next
  case (Cons x a)
  then show ?case by (cases b) auto
qed

lemma length_erase_items: "length (erase_items l) = length l"
  by (induction l) auto

lemma same_besides_visited:
  "wf_yval (YDict dict1) \<Longrightarrow> wf_yval v2 \<Longrightarrow> py_eq (YDict (erase_visited dict1)) (erase_value v2)
     \<Longrightarrow> dictionaries_are_the_same_besides_translations dict1 v2 path = Inr ([], True)"
  "wf_entries rest \<Longrightarrow> wf_entries dict2 \<Longrightarrow> py_eq_items (erase_visited rest) (erase_visited dict2)
     \<Longrightarrow> dict_keys_loop rest dict2 path ws = Inr (ws, True)"
  "wf_yval v1 \<Longrightarrow> wf_yval w2 \<Longrightarrow> py_eq (erase_value v1) (erase_value w2)
     \<Longrightarrow> dict_key_step k v1 w2 path = Inr ([], True)"
  "wf_list list1 \<Longrightarrow> wf_list list2 \<Longrightarrow> py_eq_list (erase_items list1) (erase_items list2)
     \<Longrightarrow> lists_are_the_same list1 list2 path = Inr ([], True)"
  "wf_list r1 \<Longrightarrow> wf_list r2 \<Longrightarrow> py_eq_list (erase_items r1) (erase_items r2)
     \<Longrightarrow> list_items_loop r1 r2 i path ws = Inr (ws, True)"
  "wf_yval item1 \<Longrightarrow> wf_yval item2 \<Longrightarrow> py_eq (erase_item item1) (erase_item item2)
     \<Longrightarrow> list_item_step item1 item2 path = Inr ([], True)"
proof (induction dict1 v2 path and rest dict2 path ws and k v1 w2 path and list1 list2 path
       and r1 r2 i path ws and item1 item2 path
       rule: dictionaries_are_the_same_besides_translations_dict_keys_loop_dict_key_step_lists_are_the_same_list_items_loop_list_item_step.induct)
  case (1 dict1 dict2 path)
  have "fst ` set (erase_visited dict1) = fst ` set (erase_visited dict2)"
    using 1(2,3,4) by (intro same_keys_of_py_eq) (auto simp: distinct_erase_visited)
  then have "fst ` set dict1 - ignored_keys = fst ` set dict2 - ignored_keys"
    by (simp add: keys_erase_visited)
  with 1 show ?case by simp
next
  case (5 k v1 rest dict2 path ws)
  show ?case
  proof (cases "k \<in> ignored_keys")
    case True
    with "5.IH"(1) "5.prems" show ?thesis by simp
  next
    case False
    with "5.prems"(3) obtain v2 where v2: "map_of dict2 k = Some v2"
      "py_eq (erase_value v1) (erase_value v2)" "py_eq_items (erase_visited rest) (erase_visited dict2)"
      by (auto simp: map_of_erase_visited split: option.splits)
    have "wf_yval v2" using "5.prems"(2) v2(1) by (rule wf_entries_map_of)
    with "5.IH"(2)[OF False v2(1)] "5.prems" v2 have "dict_key_step k v1 v2 path = Inr ([], True)"
      by simp
    from "5.IH"(3)[OF False v2(1) this refl] "5.prems" v2 have
      "dict_keys_loop rest dict2 path (ws @ []) = Inr (ws @ [], True)" by simp
    with False v2(1) \<open>dict_key_step k v1 v2 path = Inr ([], True)\<close> show ?thesis by simp
  qed
next
  case (7 k l1 l2 path)
  have len: "length l1 = length l2"
    using "7.prems"(3) py_eq_list_length[of "erase_items l1" "erase_items l2"]
    by (simp add: length_erase_items)
  with "7.IH" "7.prems" show ?case by simp
next
  case (14 item1 r1 item2 r2 i path ws)
  have step: "list_item_step item1 item2 (index_path path i) = Inr ([], True)"
    using "14.IH"(1) "14.prems" by simp
  from "14.IH"(2)[OF this refl] "14.prems" have
    "list_items_loop r1 r2 (Suc i) path (ws @ []) = Inr (ws @ [], True)" by simp
  with step show ?case by simp
next
  case (15 d1 item2 ipath)
  then show ?case by (cases item2) (simp_all add: is_dict_def)
next
  case (16 l item2 ipath)
  then show ?case by (cases item2) simp_all
next
  case (17 s item2 ipath)
  then show ?case by (cases item2) simp_all
next
  case (10 k s v2 path)
  then show ?case by (cases v2) simp_all
next
  case (11 list1 list2 path)
  have "length list1 = length list2"
    using "11.prems"(3) py_eq_list_length[of "erase_items list1" "erase_items list2"]
    by (simp add: length_erase_items)
  with 11 show ?case by simp
next
  case (13 item1 r1 i path ws)
  then show ?case by simp
next
  case (12 r2 i path ws)
  then show ?case by simp
next
  case (6 k d1 v2 path)
  then show ?case by simp
next
  case (8 k l1 d2 path)
  then show ?case by simp
next
  case (9 k l1 s2 path)
  then show ?case by simp
next
  case (2 dict1 l path)
  then show ?case by simp
next
  case (3 dict1 s path)
  then show ?case by simp
next
  case (4 dict2 path ws)
  then show ?case by simp
qed

text \<open>
  C2, as stated, fails where the translatable field stands in a mapping that is an element
  of a list nested directly in a list: the two records below differ only in the field
  \<open>t\<close>, and the comparison reports them as different, because an element of a list that
  is not a mapping is compared with Python's equality.
\<close>

theorem nested_list_translation_is_reported:
  "py_eq (erase_ignored (YDict [(str ''x'', YList [YList [YDict [(str ''t'', YScalar (SStr (str ''a'')))]]])]))
         (erase_ignored (YDict [(str ''x'', YList [YList [YDict [(str ''t'', YScalar (SStr (str ''b'')))]]])]))
   \<and> wf_yval (YDict [(str ''x'', YList [YList [YDict [(str ''t'', YScalar (SStr (str ''a'')))]]])])
   \<and> wf_yval (YDict [(str ''x'', YList [YList [YDict [(str ''t'', YScalar (SStr (str ''b'')))]]])])
   \<and> dictionaries_are_the_same_besides_translations
         [(str ''x'', YList [YList [YDict [(str ''t'', YScalar (SStr (str ''a'')))]]])]
         (YDict [(str ''x'', YList [YList [YDict [(str ''t'', YScalar (SStr (str ''b'')))]]])]) (str ''R'')
       = Inr ([ListItemsDontMatch (index_path (key_path (str ''R'') (str ''x'')) 0),
               FirstValue (YList [YDict [(str ''t'', YScalar (SStr (str ''a'')))]]),
               SecondValue (YList [YDict [(str ''t'', YScalar (SStr (str ''b'')))]])], False)"
  by (simp add: ignored_keys_def str_def)

text \<open>
  C2, amended. For every pair of records (mappings with pairwise different keys) that are
  equal once the ignored keys are removed from the record, from its mapping-valued fields
  (recursively) and from the mapping elements of its list-valued fields, also when an
  ignored key stands in one record only, the comparison returns match = true and no
  warning.
\<close>

theorem same_besides_translations:
  assumes "wf_yval (YDict dict1)" and "wf_yval (YDict dict2)"
    and "py_eq (YDict (erase_visited dict1)) (YDict (erase_visited dict2))"
  shows "dictionaries_are_the_same_besides_translations dict1 (YDict dict2) path = Inr ([], True)"
  using same_besides_visited(1)[of dict1 "YDict dict2" path] assms by simp

theorem same_besides_translations_witness:
  "dictionaries_are_the_same_besides_translations
     [(str ''name'', YScalar (SStr (str ''X''))), (str ''tag'', YScalar (SStr (str ''mo''))),
      (str ''replace'', YList [YDict [(str ''t'', YScalar (SStr (str ''Hello'')))]])]
     (YDict [(str ''name'', YScalar (SStr (str ''X''))), (str ''tag'', YScalar (SStr (str ''mo''))),
             (str ''oc'', YScalar (SStr (str ''old''))),
             (str ''replace'', YList [YDict [(str ''t'', YScalar (SStr (str ''Bonjour'')))]])]) (str ''X:mo'')
   = Inr ([], True)"
  by (rule same_besides_translations) (simp_all add: ignored_keys_def str_def)

text \<open>
  C4. At the shared key \<open>a\<close> the first record has a mapping and the second a string. The
  claim says that the comparison settles the key with a reported mismatch; the source
  tests only \<^verbatim>\<open>isinstance(dict1[k], dict)\<close> before it recurses, so the recursive call
  evaluates \<^verbatim>\<open>dict2.keys()\<close> on the string and raises \<^verbatim>\<open>AttributeError\<close>.
\<close>

theorem mapping_against_scalar_raises:
  "dictionaries_are_the_same_besides_translations
     [(str ''a'', YDict [(str ''b'', YScalar (SInt 1))])] (YDict [(str ''a'', YScalar (SStr (str ''x'')))]) (str ''R'')
   = Inl AttributeError"
  by (simp add: ignored_keys_def str_def)

section \<open>Records that differ in a field that is not ignored\<close>





lemma py_eq_erase_item_dict:
  "is_dict item2 \<Longrightarrow> erase_item item2 = erase_value item2"
  by (cases item2) (simp_all add: is_dict_def)




lemma wf_entries_in_set: "wf_entries d \<Longrightarrow> (k, v) \<in> set d \<Longrightarrow> wf_yval v"
  by (induction d) auto

lemma wf_list_nth: "wf_list xs \<Longrightarrow> j < length xs \<Longrightarrow> wf_yval (xs ! j)"
  by (induction xs arbitrary: j) (auto simp: nth_Cons split: nat.splits)









section \<open>The extracted lines give back the key\<close>












text \<open>Once the key is known, further lines leave it alone.\<close>

lemma detect_known:
  "current_rule_key st \<noteq> None \<Longrightarrow> detect_rule_key load uni l st = Inr st"
  by (cases "current_rule_key st") (simp_all add: detect_rule_key_def)

lemma rescan_step_known:
  assumes "current_rule_key st = Some k"
  shows "\<exists>st'. rescan_step load uni l st = Inr st' \<and> current_rule_key st' = Some k"
  using assms
  by (simp add: rescan_step_def note_indentation_def detect_known buffer_line_def Let_def)

lemma rescan_loop_known:
  assumes "current_rule_key st = Some k"
  shows "\<exists>st'. rescan_loop load uni ls st = Inr st' \<and> current_rule_key st' = Some k"
  using assms
proof (induction ls arbitrary: st)
  case Nil
  then show ?case by simp
next
  case (Cons l ls)
  from rescan_step_known[OF Cons.prems, of load uni l] obtain st1 where
    s: "rescan_step load uni l st = Inr st1" "current_rule_key st1 = Some k" by blast
  from Cons.IH[OF s(2)] s(1) show ?case by simp
qed

lemma buffer_line_fields [simp]:
  "buffered_lines (buffer_line l st) = buffered_lines st @ [l]"
  "indentation (buffer_line l st) = indentation st"
  "past_start_of_document (buffer_line l st) = past_start_of_document st"
  "current_rule_key (buffer_line l st) = current_rule_key st"
  "found_name_key (buffer_line l st) = found_name_key st"
  "last_buffered_non_blank_non_comment_line (buffer_line l st) =
     (if blank_or_comment l then last_buffered_non_blank_non_comment_line st
      else Some (Suc (length (buffered_lines st))))"
  by (simp_all add: buffer_line_def Let_def blank_or_comment_def)

















lemmas line_defs =
  get_key_from_line_def double_quoted_key_def single_quoted_key_def lstrip_def rstrip_def
  strip_def is_space_def startswith_def str_def nl_def line_is_a_normal_comment_def
  line_is_a_translation_audit_comment_def line_is_blank_def line_is_start_of_document_def
  line_has_name_key_def line_has_tag_key_def is_item_line_def indent_of_def

lemmas grab_defs =
  grab_missing_rule_lines_def grab_step_def detect_rule_key_def buffer_line_def
  initial_scan_state_def del_up_to_def del_from_def enter_document_def note_indentation_def
  starts_root_item_def end_previous_rule_def Let_def



text \<open>
  C6. The rule \<open>a\<close> is the first of the file and has a blank line and a comment before
  it, after the document start marker; the header of the source says that such comments
  belong to the first rule. The claim says that the lines returned for \<open>a\<close> are its Line
  Block, the attached comment and blank line with the lines of the rule. The source
  returns the line of the rule alone: at the first rule no line of the buffer is yet
  counted as last, and \<^verbatim>\<open>del buffered_lines[:None]\<close> empties the buffer. For the rule
  \<open>d\<close>, which is not the first, the comment is returned.
\<close>

theorem first_rule_loses_its_comments:
  \<open>grab_missing_rule_lines load (str ''a'') english_example True = Inr [nl ''- "a": [t: "x"]'']
   \<and> grab_missing_rule_lines load (str ''d'') english_example True
       = Inr [nl ''# about d'', nl ''- "d": [t: "w"]'']\<close>
  by (simp add: english_example_def grab_defs line_defs)

end
